theory Spec2Isabelle
  imports Main "HOL-Library.Word"
begin

unbundle bit_operations_syntax

section \<open>Bytes, errors and the byte source\<close>

type_synonym byte = "8 word"

text \<open>
  Go strings and byte slices are sequences of bytes; both are lists of bytes here.
  A character literal of the source is the byte of that character.
\<close>

definition byte_of :: "char \<Rightarrow> byte" where
  "byte_of c = of_char c"

definition bytes_of :: "string \<Rightarrow> byte list" where
  "bytes_of s = map byte_of s"

text \<open>
  The errors of the package: \<open>io.EOF\<close> from the byte source, one value for each
  \<open>errors.New\<close> of \<open>validateHeader\<close>, the error of \<open>time.Parse\<close>, and the
  run-time panic of a slice expression out of range.
\<close>

datatype error =
    EOF
  | NotIMD
  | MissingSeparator
  | InvalidVersionFormat
  | InvalidMajorVersion
  | InvalidMinorVersion
  | InvalidDatetimeLength
  | DatetimeNotTwoParts
  | InvalidDateFormat
  | InvalidDateValues
  | InvalidTimeFormat
  | InvalidTimeValues
  | ParseError
  | SliceOutOfRange

text \<open>
  The \<open>io.Reader\<close> handed to \<open>Decode\<close> is the byte source of the package. It is
  modelled as Go's \<open>bytes.Reader\<close> over a finite input: the state is the unread
  remainder. \<open>Read\<close> at the end of the input returns \<open>(0, io.EOF)\<close> and leaves the
  buffer alone; otherwise it copies as many bytes as fit (\<open>n = copy(b, rest)\<close>), advances
  by \<open>n\<close>, and returns \<open>(n, nil)\<close>, also when \<open>n\<close> is less than \<open>len(b)\<close>.
  The result is the buffer after the call, \<open>n\<close>, the error and the reader after the call.
\<close>

type_synonym reader = "byte list"

definition Read :: "reader \<Rightarrow> byte list \<Rightarrow> byte list \<times> nat \<times> error option \<times> reader" where
  "Read r b =
     (if r = [] then (b, 0, Some EOF, r)
      else (take (length b) r @ drop (length r) b,
            min (length b) (length r), None, drop (length b) r))"

text \<open>\<open>make([]byte, n)\<close>: a fresh slice of \<open>n\<close> zero bytes.\<close>

definition makeBytes :: "nat \<Rightarrow> byte list" where
  "makeBytes n = replicate n 0"

text \<open>
  \<open>readBytePtr\<close> reads into the one-byte slice at \<open>dst\<close>; the result is the new value
  of \<open>*dst\<close>, the error and the reader.
\<close>

definition readBytePtr :: "reader \<Rightarrow> byte \<Rightarrow> byte \<times> error option \<times> reader" where
  "readBytePtr r dst = (case Read r [dst] of (b, n, err, r') \<Rightarrow> (b ! 0, err, r'))"

definition readByte :: "reader \<Rightarrow> byte \<times> error option \<times> reader" where
  "readByte r = (let v = 0 in readBytePtr r v)"

section \<open>The comment reader\<close>

text \<open>
  \<open>string(byt[0])\<close> converts an integer to a string: the UTF-8 encoding of the code
  point with that number, one byte below 0x80 and two bytes from 0x80 to 0xFF.
\<close>

definition string_of_byte :: "byte \<Rightarrow> byte list" where
  "string_of_byte b =
     (if b < 0x80 then [b]
      else [0xC0 OR drop_bit 6 b, 0x80 OR (b AND 0x3F)])"

text \<open>The loop of \<open>readStringASCIIEOF\<close>, on the variables \<open>str\<close> and \<open>byt\<close>.\<close>

function readStringASCIIEOF_loop ::
  "reader \<Rightarrow> byte list \<Rightarrow> byte \<Rightarrow> byte list \<times> error option \<times> reader" where
  "readStringASCIIEOF_loop r str byt =
     (case Read r [byt] of
        (b, n, Some err, r') \<Rightarrow> (str, Some err, r')
      | (b, n, None, r') \<Rightarrow>
          if b ! 0 = 0x1A then (str, None, r')
          else readStringASCIIEOF_loop r' (str @ string_of_byte (b ! 0)) (b ! 0))"
  by pat_completeness auto
termination
  by (relation "measure (\<lambda>(r, str, byt). length r)")
     (auto simp: Read_def split: if_splits)

declare readStringASCIIEOF_loop.simps [simp del]

definition readStringASCIIEOF :: "reader \<Rightarrow> byte list \<times> error option \<times> reader" where
  "readStringASCIIEOF r = readStringASCIIEOF_loop r [] 0"

section \<open>The standard library functions the header validation calls\<close>

text \<open>
  \<open>strings.HasPrefix\<close>, \<open>strings.Index\<close> (the first position of \<open>sep\<close>, here
  \<open>None\<close> for Go's -1), \<open>strings.SplitN\<close> with \<open>n = 2\<close> and \<open>strings.Split\<close>,
  the last two for a non-empty separator, as at both call sites.
\<close>

definition HasPrefix :: "byte list \<Rightarrow> byte list \<Rightarrow> bool" where
  "HasPrefix s p = (length p \<le> length s \<and> take (length p) s = p)"

fun Index :: "byte list \<Rightarrow> byte list \<Rightarrow> nat option" where
  "Index [] sep = (if sep = [] then Some 0 else None)"
| "Index (x # t) sep =
     (if HasPrefix (x # t) sep then Some 0 else map_option Suc (Index t sep))"

definition SplitN2 :: "byte list \<Rightarrow> byte list \<Rightarrow> byte list list" where
  "SplitN2 s sep =
     (case Index s sep of
        None \<Rightarrow> [s]
      | Some m \<Rightarrow> [take m s, drop (m + length sep) s])"

lemma Index_bound: "Index s sep = Some m \<Longrightarrow> m + length sep \<le> length s"
  by (induction s arbitrary: m) (auto simp: HasPrefix_def split: if_splits)

function Split :: "byte list \<Rightarrow> byte list \<Rightarrow> byte list list" where
  "Split s sep =
     (if sep = [] then []
      else case Index s sep of
             None \<Rightarrow> [s]
           | Some m \<Rightarrow> take m s # Split (drop (m + length sep) s) sep)"
  by pat_completeness auto
termination
  by (relation "measure (\<lambda>(s, sep). length s)")
     (auto dest!: Index_bound simp: neq_Nil_conv)

declare Split.simps [simp del]

text \<open>
  \<open>strconv.Atoi\<close>: an optional sign, then at least one decimal digit and nothing else;
  the value must fit a 64-bit \<open>int\<close>.
\<close>

definition Atoi :: "byte list \<Rightarrow> int option" where
  "Atoi s =
     (if s = [] then None
      else
        let t = (if hd s = byte_of CHR ''-'' \<or> hd s = byte_of CHR ''+'' then tl s else s) in
        if t = [] then None
        else if \<exists>ch \<in> set t. ch - byte_of CHR ''0'' > 9 then None
        else
          let n = foldl (\<lambda>n ch. n * 10 + uint (ch - byte_of CHR ''0'')) 0 t;
              n = (if hd s = byte_of CHR ''-'' then - n else n)
          in if n < - (2 ^ 63) \<or> 2 ^ 63 \<le> n then None else Some n)"

subsection \<open>\<open>time.Parse\<close> on the three layouts of the package\<close>

text \<open>
  A layout is the list of its chunks, as \<open>nextStdChunk\<close> cuts it: literal text and the
  standard fields \<open>02\<close>, \<open>01\<close>, \<open>2006\<close>, \<open>15\<close>, \<open>04\<close> and \<open>05\<close>.
\<close>

datatype chunk =
    Lit "byte list"
  | stdZeroDay
  | stdZeroMonth
  | stdLongYear
  | stdHour
  | stdZeroMinute
  | stdZeroSecond

definition layoutDate :: "chunk list" where
  "layoutDate = [stdZeroDay, Lit (bytes_of ''/''), stdZeroMonth, Lit (bytes_of ''/''), stdLongYear]"

definition layoutTime :: "chunk list" where
  "layoutTime = [stdHour, Lit (bytes_of '':''), stdZeroMinute, Lit (bytes_of '':''), stdZeroSecond]"

definition layoutDateTime :: "chunk list" where
  "layoutDateTime = layoutDate @ [Lit (bytes_of '' '')] @ layoutTime"

text \<open>A \<open>time.Time\<close> in UTC, by its calendar fields.\<close>

record timestamp =
  year :: int
  month :: int
  day :: int
  hour :: int
  minute :: int
  second :: int
  nanosecond :: int

definition isDigit :: "byte list \<Rightarrow> nat \<Rightarrow> bool" where
  "isDigit s i =
     (if length s \<le> i then False
      else byte_of CHR ''0'' \<le> s ! i \<and> s ! i \<le> byte_of CHR ''9'')"

definition digitVal :: "byte \<Rightarrow> int" where
  "digitVal c = uint (c - byte_of CHR ''0'')"

text \<open>\<open>getnum\<close>: one or two digits, exactly two when \<open>fixed\<close>.\<close>

definition getnum :: "byte list \<Rightarrow> bool \<Rightarrow> (int \<times> byte list) option" where
  "getnum s fixed =
     (if \<not> isDigit s 0 then None
      else if \<not> isDigit s 1 then
        (if fixed then None else Some (digitVal (s ! 0), drop 1 s))
      else Some (digitVal (s ! 0) * 10 + digitVal (s ! 1), drop 2 s))"

definition cutspace :: "byte list \<Rightarrow> byte list" where
  "cutspace s = dropWhile (\<lambda>c. c = byte_of CHR '' '') s"

text \<open>
  \<open>skip\<close>: the literal text of the layout must stand in the input; a space of the
  layout stands for any run of spaces, also an empty one at the end of the input.
\<close>

function skip :: "byte list \<Rightarrow> byte list \<Rightarrow> byte list option" where
  "skip v p =
     (if p = [] then Some v
      else if hd p = byte_of CHR '' '' then
        (if v \<noteq> [] \<and> hd v \<noteq> byte_of CHR '' '' then None
         else skip (cutspace v) (cutspace p))
      else if v = [] \<or> hd v \<noteq> hd p then None
      else skip (tl v) (tl p))"
  by pat_completeness auto
termination
proof (relation "measure (\<lambda>(v, p). length p)")
  show "wf (measure (\<lambda>(v, p). length p))"
    by simp
next
  fix v p :: "byte list"
  assume "p \<noteq> []" "hd p = byte_of CHR '' ''"
  then show "((cutspace v, cutspace p), (v, p)) \<in> measure (\<lambda>(v, p). length p)"
    by (cases p) (auto simp: cutspace_def intro: le_imp_less_Suc length_dropWhile_le)
next
  fix v p :: "byte list"
  assume "p \<noteq> []"
  then show "((tl v, tl p), (v, p)) \<in> measure (\<lambda>(v, p). length p)"
    by (cases p) auto
qed

declare skip.simps [simp del]

text \<open>
  The digits of a year or of a fraction of a second, read by the package's \<open>atoi\<close>
  once the caller has checked that they are digits.
\<close>

definition digitsVal :: "byte list \<Rightarrow> int" where
  "digitsVal s = foldl (\<lambda>n c. n * 10 + digitVal c) 0 s"

definition commaOrPeriod :: "byte \<Rightarrow> bool" where
  "commaOrPeriod b = (b = byte_of CHR ''.'' \<or> b = byte_of CHR '','')"

definition isDigitByte :: "byte \<Rightarrow> bool" where
  "isDigitByte c = (byte_of CHR ''0'' \<le> c \<and> c \<le> byte_of CHR ''9'')"

text \<open>
  \<open>parseNanoseconds\<close> on a separator and the \<open>nbytes - 1\<close> digits after it: at most
  nine digits count, scaled to nanoseconds.
\<close>

definition parseNanoseconds :: "byte list \<Rightarrow> nat \<Rightarrow> int" where
  "parseNanoseconds v nbytes =
     (let nb = (if nbytes > 10 then 10 else nbytes)
      in digitsVal (take (nb - 1) (drop 1 v)) * 10 ^ (10 - nb))"

text \<open>
  The fields \<open>Parse\<close> collects; month and day start at -1, the others at 0.
\<close>

record fields =
  f_year :: int
  f_month :: int
  f_day :: int
  f_hour :: int
  f_min :: int
  f_sec :: int
  f_nsec :: int

text \<open>
  One chunk of the layout against the input: the fields and the rest of the input, or
  \<open>None\<close> for a syntax or range error. A fraction of a second after the seconds is
  accepted though the layout has none.
\<close>

definition parseChunk :: "chunk \<Rightarrow> byte list \<Rightarrow> fields \<Rightarrow> (fields \<times> byte list) option" where
  "parseChunk c v fs =
     (case c of
        Lit p \<Rightarrow> (case skip v p of None \<Rightarrow> None | Some v' \<Rightarrow> Some (fs, v'))
      | stdZeroDay \<Rightarrow>
          (case getnum v True of None \<Rightarrow> None
           | Some (d, v') \<Rightarrow> Some (fs\<lparr>f_day := d\<rparr>, v'))
      | stdZeroMonth \<Rightarrow>
          (case getnum v True of None \<Rightarrow> None
           | Some (m, v') \<Rightarrow>
               if m \<le> 0 \<or> 12 < m then None else Some (fs\<lparr>f_month := m\<rparr>, v'))
      | stdLongYear \<Rightarrow>
          (if length v < 4 \<or> \<not> isDigit v 0 then None
           else if \<not> list_all isDigitByte (take 4 v) then None
           else Some (fs\<lparr>f_year := digitsVal (take 4 v)\<rparr>, drop 4 v))
      | stdHour \<Rightarrow>
          (case getnum v False of None \<Rightarrow> None
           | Some (h, v') \<Rightarrow>
               if h < 0 \<or> 24 \<le> h then None else Some (fs\<lparr>f_hour := h\<rparr>, v'))
      | stdZeroMinute \<Rightarrow>
          (case getnum v True of None \<Rightarrow> None
           | Some (m, v') \<Rightarrow>
               if m < 0 \<or> 60 \<le> m then None else Some (fs\<lparr>f_min := m\<rparr>, v'))
      | stdZeroSecond \<Rightarrow>
          (case getnum v True of None \<Rightarrow> None
           | Some (s, v') \<Rightarrow>
               if s < 0 \<or> 60 \<le> s then None
               else if 2 \<le> length v' \<and> commaOrPeriod (v' ! 0) \<and> isDigit v' 1 then
                 (let n = 1 + length (takeWhile isDigitByte (drop 1 v'))
                  in Some (fs\<lparr>f_sec := s, f_nsec := parseNanoseconds v' n\<rparr>, drop n v'))
               else Some (fs\<lparr>f_sec := s\<rparr>, v')))"

fun parseChunks :: "chunk list \<Rightarrow> byte list \<Rightarrow> fields \<Rightarrow> fields option" where
  "parseChunks [] v fs = (if v \<noteq> [] then None else Some fs)"
| "parseChunks (c # cs) v fs =
     (case parseChunk c v fs of
        None \<Rightarrow> None
      | Some (fs', v') \<Rightarrow> parseChunks cs v' fs')"

definition isLeap :: "int \<Rightarrow> bool" where
  "isLeap y = (y mod 4 = 0 \<and> (y mod 100 \<noteq> 0 \<or> y mod 400 = 0))"

definition daysIn :: "int \<Rightarrow> int \<Rightarrow> int" where
  "daysIn m y =
     (if m = 2 then (if isLeap y then 29 else 28)
      else if m = 4 \<or> m = 6 \<or> m = 9 \<or> m = 11 then 30
      else 31)"

definition time_Parse :: "chunk list \<Rightarrow> byte list \<Rightarrow> error + timestamp" where
  "time_Parse layout v =
     (case parseChunks layout v
             \<lparr>f_year = 0, f_month = -1, f_day = -1, f_hour = 0, f_min = 0, f_sec = 0, f_nsec = 0\<rparr> of
        None \<Rightarrow> Inl ParseError
      | Some fs \<Rightarrow>
          let m = (if f_month fs < 0 then 1 else f_month fs);
              d = (if f_day fs < 0 then 1 else f_day fs)
          in if d < 1 \<or> d > daysIn m (f_year fs) then Inl ParseError
             else Inr \<lparr>year = f_year fs, month = m, day = d, hour = f_hour fs,
                       minute = f_min fs, second = f_sec fs, nanosecond = f_nsec fs\<rparr>)"

section \<open>The header\<close>

text \<open>
  \<open>Header\<close> is a string type. \<open>Version\<close> and \<open>Time\<close> slice it; a slice out of range
  panics, which is the error \<open>SliceOutOfRange\<close> here.
\<close>

definition Version :: "byte list \<Rightarrow> error + byte list" where
  "Version h = (if length h < 8 then Inl SliceOutOfRange else Inr (take 4 (drop 4 h)))"

definition Time :: "byte list \<Rightarrow> error + timestamp" where
  "Time h = (if length h < 10 then Inl SliceOutOfRange else time_Parse layoutDateTime (drop 10 h))"

definition validateHeader :: "byte list \<Rightarrow> error option" where
  "validateHeader input =
     (if \<not> HasPrefix input (bytes_of ''IMD '') then Some NotIMD
      else
        let parts = SplitN2 (drop 4 input) (bytes_of '': '') in
        if length parts \<noteq> 2 then Some MissingSeparator
        else
          let version = parts ! 0 in
          if length version < 4 \<or> version ! 1 \<noteq> byte_of CHR ''.'' \<or> length version > 6
          then Some InvalidVersionFormat
          else if Atoi (take 1 version) = None then Some InvalidMajorVersion
          else if Atoi (drop 2 version) = None then Some InvalidMinorVersion
          else
            let datetime = parts ! 1 in
            if length datetime \<noteq> 19 then Some InvalidDatetimeLength
            else
              let dateTimeParts = Split datetime (bytes_of '' '') in
              if length dateTimeParts \<noteq> 2 then Some DatetimeNotTwoParts
              else
                let date = dateTimeParts ! 0 in
                if length date \<noteq> 10 \<or> date ! 2 \<noteq> byte_of CHR ''/''
                   \<or> date ! 5 \<noteq> byte_of CHR ''/''
                then Some InvalidDateFormat
                else if isl (time_Parse layoutDate date) then Some InvalidDateValues
                else
                  let timeStr = dateTimeParts ! 1 in
                  if length timeStr \<noteq> 8 \<or> timeStr ! 2 \<noteq> byte_of CHR '':''
                     \<or> timeStr ! 5 \<noteq> byte_of CHR '':''
                  then Some InvalidTimeFormat
                  else if isl (time_Parse layoutTime timeStr) then Some InvalidTimeValues
                  else None)"

section \<open>Tracks and the decoder\<close>

text \<open>
  A nil slice is \<open>None\<close>: the two optional maps, and the data record of a sector that
  was never assigned.
\<close>

record Track =
  ModeValue :: byte
  Cylinder :: byte
  Head :: byte
  NumberOfSectors :: byte
  SectorSize :: byte
  SectorNumberingMap :: "byte list"
  SectorCylinderMap :: "byte list option"
  SectorHeadMap :: "byte list option"
  SectorDataRecords :: "byte list option list"

record File =
  Header :: "byte list"
  Comment :: "byte list"
  Tracks :: "Track list"

definition sectorCylinderMapMask :: byte where
  "sectorCylinderMapMask = push_bit (0 + 6) 1"

definition sectorHeadMapMask :: byte where
  "sectorHeadMapMask = push_bit (1 + 6) 1"

function fill_loop :: "byte list \<Rightarrow> byte \<Rightarrow> nat \<Rightarrow> byte list" where
  "fill_loop dst v i = (if i < length dst then fill_loop (dst[i := v]) v (i + 1) else dst)"
  by pat_completeness auto
termination
  by (relation "measure (\<lambda>(dst, v, i). length dst - i)") auto

declare fill_loop.simps [simp del]

definition fill :: "byte list \<Rightarrow> byte \<Rightarrow> byte list" where
  "fill dst v = fill_loop dst v 0"

lemma byte_step: "i < n \<Longrightarrow> unat n - unat (i + 1) < unat n - unat i" for i n :: byte
  by unat_arith

text \<open>
  The sector loop of \<open>Decode\<close> (\<open>for i := byte(0); i < numberOfSectors; i++\<close>), on
  the variables \<open>i\<close>, \<open>record\<close>, \<open>sectorDataRecords\<close> and the reader. A discriminant
  that no case of the \<open>switch\<close> names falls through it: the loop goes on with the
  next sector. The result is the data records, or the error that ends \<open>Decode\<close>.
\<close>

function sectorLoop ::
  "byte \<Rightarrow> byte \<Rightarrow> byte \<Rightarrow> byte \<Rightarrow> byte list option list \<Rightarrow> reader
   \<Rightarrow> byte list option list \<times> error option \<times> reader" where
  "sectorLoop i numberOfSectors sectorSize record sectorDataRecords r =
     (if i < numberOfSectors then
        (case readBytePtr r record of
           (record, Some err, r) \<Rightarrow> (sectorDataRecords, Some err, r)
         | (record, None, r) \<Rightarrow>
             if record = 0 then
               sectorLoop (i + 1) numberOfSectors sectorSize record sectorDataRecords r
             else if record = 1 \<or> record = 3 \<or> record = 5 \<or> record = 7 then
               (case Read r (makeBytes (unat sectorSize)) of
                  (b, n, Some err, r) \<Rightarrow> (sectorDataRecords[unat i := Some b], Some err, r)
                | (b, n, None, r) \<Rightarrow>
                    sectorLoop (i + 1) numberOfSectors sectorSize record
                      (sectorDataRecords[unat i := Some b]) r)
             else if record = 2 \<or> record = 4 \<or> record = 6 \<or> record = 8 then
               (case readByte r of
                  (v, Some err, r) \<Rightarrow> (sectorDataRecords, Some err, r)
                | (v, None, r) \<Rightarrow>
                    sectorLoop (i + 1) numberOfSectors sectorSize record
                      (sectorDataRecords[unat i := Some (fill (makeBytes (unat sectorSize)) v)]) r)
             else sectorLoop (i + 1) numberOfSectors sectorSize record sectorDataRecords r)
      else (sectorDataRecords, None, r))"
  by pat_completeness auto
termination
  by (relation "measure (\<lambda>(i, numberOfSectors, sectorSize, record, sectorDataRecords, r).
                            unat numberOfSectors - unat i)")
     (auto intro: byte_step)

declare sectorLoop.simps [simp del]

text \<open>
  The body of the track loop of \<open>Decode\<close>, which runs once: the loop ends at the
  \<open>break\<close> after the first track is appended, or at the \<open>break\<close> when no mode byte
  can be read; every other read error returns from \<open>Decode\<close> with the error.
\<close>

definition trackLoop :: "File \<Rightarrow> reader \<Rightarrow> File \<times> error option" where
  "trackLoop file r =
     (case readByte r of
        (modeValue, Some err, r) \<Rightarrow> (file, None)
      | (modeValue, None, r) \<Rightarrow>
     (case readByte r of
        (cylinder, Some err, r) \<Rightarrow> (file, Some err)
      | (cylinder, None, r) \<Rightarrow>
     (case readByte r of
        (head, Some err, r) \<Rightarrow> (file, Some err)
      | (head, None, r) \<Rightarrow>
     (case readByte r of
        (numberOfSectors, Some err, r) \<Rightarrow> (file, Some err)
      | (numberOfSectors, None, r) \<Rightarrow>
     (case readByte r of
        (sectorSize, Some err, r) \<Rightarrow> (file, Some err)
      | (sectorSize, None, r) \<Rightarrow>
     (case Read r (makeBytes (unat numberOfSectors)) of
        (sectorNumberingMap, n, Some err, r) \<Rightarrow> (file, Some err)
      | (sectorNumberingMap, n, None, r) \<Rightarrow>
     (case (if head AND sectorCylinderMapMask \<noteq> 0
            then (case Read r (makeBytes (unat numberOfSectors)) of
                    (b, n, err, r) \<Rightarrow> (Some b, err, r))
            else (None, None, r)) of
        (sectorCylinderMap, Some err, r) \<Rightarrow> (file, Some err)
      | (sectorCylinderMap, None, r) \<Rightarrow>
     (case (if head AND sectorHeadMapMask \<noteq> 0
            then (case Read r (makeBytes (unat numberOfSectors)) of
                    (b, n, err, r) \<Rightarrow> (Some b, err, r))
            else (None, None, r)) of
        (sectorHeadMap, Some err, r) \<Rightarrow> (file, Some err)
      | (sectorHeadMap, None, r) \<Rightarrow>
     (case sectorLoop 0 numberOfSectors sectorSize 0
             (replicate (unat numberOfSectors) None) r of
        (sectorDataRecords, Some err, r) \<Rightarrow> (file, Some err)
      | (sectorDataRecords, None, r) \<Rightarrow>
          (file\<lparr>Tracks := Tracks file @
             [\<lparr>ModeValue = modeValue, Cylinder = cylinder, Head = head,
               NumberOfSectors = numberOfSectors, SectorSize = sectorSize,
               SectorNumberingMap = sectorNumberingMap,
               SectorCylinderMap = sectorCylinderMap,
               SectorHeadMap = sectorHeadMap,
               SectorDataRecords = sectorDataRecords\<rparr>]\<rparr>, None))))))))))"

text \<open>
  \<open>Decode\<close> returns the file built so far and the error, \<open>None\<close> for \<open>nil\<close>.
\<close>

definition Decode :: "reader \<Rightarrow> File \<times> error option" where
  "Decode r =
     (let file = \<lparr>Header = [], Comment = [], Tracks = []\<rparr> in
      case Read r (makeBytes 0x1D) of
        (header, n, Some err, r) \<Rightarrow> (file, Some err)
      | (header, n, None, r) \<Rightarrow>
          let file = file\<lparr>Header := header\<rparr> in
          case validateHeader (Header file) of
            Some err \<Rightarrow> (file, Some err)
          | None \<Rightarrow>
              (case readStringASCIIEOF r of
                 (comment, err, r) \<Rightarrow>
                   let file = file\<lparr>Comment := comment\<rparr> in
                   case err of
                     Some e \<Rightarrow> (file, Some e)
                   | None \<Rightarrow> trackLoop file r))"

section \<open>Properties of the byte source and the comment reader\<close>

lemma Read_Nil: "Read [] b = (b, 0, Some EOF, [])"
  by (simp add: Read_def)

lemma Read_one: "Read (x # r) [d] = ([x], 1, None, r)"
  by (simp add: Read_def)

lemma readByte_Nil: "readByte [] = (0, Some EOF, [])"
  by (simp add: readByte_def readBytePtr_def Read_Nil)

lemma readByte_Cons: "readByte (x # r) = (x, None, r)"
  by (simp add: readByte_def readBytePtr_def Read_one)

lemma readBytePtr_Nil: "readBytePtr [] d = (d, Some EOF, [])"
  by (simp add: readBytePtr_def Read_Nil)

lemma readBytePtr_Cons: "readBytePtr (x # r) d = (x, None, r)"
  by (simp add: readBytePtr_def Read_one)

lemma comment_loop_Nil: "readStringASCIIEOF_loop [] str byt = (str, Some EOF, [])"
  by (subst readStringASCIIEOF_loop.simps) (simp add: Read_Nil)

lemma comment_loop_Cons:
  "readStringASCIIEOF_loop (x # r) str byt =
     (if x = 0x1A then (str, None, r)
      else readStringASCIIEOF_loop r (str @ string_of_byte x) x)"
  by (subst readStringASCIIEOF_loop.simps) (simp add: Read_one)

lemma comment_loop_sentinel:
  "\<forall>b \<in> set T. b < 0x80 \<Longrightarrow> 0x1A \<notin> set T \<Longrightarrow>
   readStringASCIIEOF_loop (T @ 0x1A # rest) str byt = (str @ T, None, rest)"
proof (induction T arbitrary: str byt)
  case Nil
  show ?case by (simp add: comment_loop_Cons)
next
  case (Cons x T)
  from Cons.prems have x: "x \<noteq> 0x1A" "x < 0x80" by auto
  from Cons.prems have "\<forall>b \<in> set T. b < 0x80" "0x1A \<notin> set T" by auto
  then have "readStringASCIIEOF_loop (T @ 0x1A # rest) (str @ [x]) x
               = ((str @ [x]) @ T, None, rest)"
    by (rule Cons.IH)
  with x show ?case
    by (simp add: comment_loop_Cons string_of_byte_def)
qed

lemma comment_loop_no_sentinel:
  "0x1A \<notin> set s \<Longrightarrow> fst (snd (readStringASCIIEOF_loop s str byt)) = Some EOF"
proof (induction s arbitrary: str byt)
  case Nil
  show ?case by (simp add: comment_loop_Nil)
next
  case (Cons x s)
  then show ?case by (simp add: comment_loop_Cons)
qed

text \<open>
  C6. For a text \<open>T\<close> of ASCII bytes (each below 0x80) without the byte 0x1A, the comment
  reader on \<open>T\<close>, then 0x1A, then any further input returns exactly \<open>T\<close> with no error
  and leaves the reader just after the sentinel; and on an input that holds no byte
  0x1A at all it returns the error of the byte source.
\<close>

theorem comment_round_trip:
  "(\<forall>b \<in> set T. b < 0x80) \<and> 0x1A \<notin> set T \<longrightarrow>
     readStringASCIIEOF (T @ 0x1A # rest) = (T, None, rest)
     \<and> (\<exists>str r'. readStringASCIIEOF T = (str, Some EOF, r'))"
proof (intro impI conjI)
  assume h: "(\<forall>b \<in> set T. b < 0x80) \<and> 0x1A \<notin> set T"
  then show "readStringASCIIEOF (T @ 0x1A # rest) = (T, None, rest)"
    using comment_loop_sentinel [of T rest "[]" 0]
    by (simp add: readStringASCIIEOF_def)
  from h have "fst (snd (readStringASCIIEOF_loop T [] 0)) = Some EOF"
    by (simp add: comment_loop_no_sentinel)
  then show "\<exists>str r'. readStringASCIIEOF T = (str, Some EOF, r')"
    by (cases "readStringASCIIEOF_loop T [] 0") (auto simp: readStringASCIIEOF_def)
qed

theorem comment_round_trip_witness:
  "readStringASCIIEOF (bytes_of ''Hi'' @ 0x1A # [7, 9]) = (bytes_of ''Hi'', None, [7, 9])
   \<and> (\<exists>str r'. readStringASCIIEOF (bytes_of ''Hi'') = (str, Some EOF, r'))"
  using comment_round_trip [of "bytes_of ''Hi''" "[7, 9]"]
  by (simp add: bytes_of_def byte_of_def)

end
